theory Spec2Isabelle
  imports
    Main
    "HOL-Library.AList"
    "HOL-Library.Char_ord"
    "HOL-Library.List_Lexorder"
    "HOL-Library.Multiset"
    "HOL-Library.Signed_Division"
begin

section \<open>Data model of daily\_report.py\<close>

text \<open>
  A row of the provider's payload is a JSON array. Its cells are the scalar JSON values
  the script handles: null, an integer or a string (Python's unbounded \<open>int\<close> is
  \<open>int\<close>). Fractional numbers, booleans and nested arrays are outside this model.
  Strings are byte lists holding the UTF-8 encoding of the Python text; the script only
  concatenates them, compares them by code point and replaces the ASCII letter Z, and
  all three agree with the same operations on the encoding.
\<close>

datatype cell = CNone | CInt int | CStr string

type_synonym row = "cell list"

text \<open>The parsed payload: a dictionary whose values are arrays of rows.\<close>

type_synonym data = "string \<rightharpoonup> row list"

text \<open>
  The exceptions the script can raise. \<open>InvalidIsoformat\<close> is the \<open>ValueError\<close> of
  \<open>datetime.fromisoformat\<close>; \<open>ValueError\<close> carries the message \<open>main\<close> gives it;
  \<open>HTTPError\<close> is whatever the two HTTP calls raise.
\<close>

datatype error =
    IndexError
  | AttributeError
  | TypeError
  | InvalidIsoformat
  | ValueError string
  | HTTPError

record datetime =
  dt_year :: nat
  dt_month :: nat
  dt_day :: nat
  dt_hour :: nat
  dt_minute :: nat
  dt_second :: nat

text \<open>One entry of \<open>hourly_data[hour]["activities"]\<close>.\<close>

record activity =
  act_name :: cell
  act_seconds :: int
  act_productivity :: int
  act_category :: cell

text \<open>The value \<open>hourly_data\<close> holds for an hour.\<close>

record bucket =
  activities :: "activity list"
  total_seconds :: int
  productive_seconds :: int
  distracting_seconds :: int

text \<open>
  The variables of the loop of \<open>generate_report\<close>. A Python dictionary keeps its keys in
  insertion order, so both dictionaries are association lists: \<open>AList.update\<close>
  overwrites a key where it stands and appends a new key at the end.
\<close>

record agg =
  hourly_data :: "(string \<times> bucket) list"
  category_totals :: "(cell \<times> int) list"
  total_productive :: int
  total_distracting :: int
  total_time :: int

section \<open>Text helpers\<close>

definition nl :: string where
  "nl = [CHR 0x0A]"

definition e_acute :: string where
  "e_acute = [CHR 0xC3, CHR 0xA9]"

definition e_grave :: string where
  "e_grave = [CHR 0xC3, CHR 0xA8]"

definition green_circle :: string where
  "green_circle = [CHR 0xF0, CHR 0x9F, CHR 0x9F, CHR 0xA2]"

definition blue_circle :: string where
  "blue_circle = [CHR 0xF0, CHR 0x9F, CHR 0x94, CHR 0xB5]"

definition white_circle :: string where
  "white_circle = [CHR 0xE2, CHR 0x9A, CHR 0xAA]"

definition orange_circle :: string where
  "orange_circle = [CHR 0xF0, CHR 0x9F, CHR 0x9F, CHR 0xA0]"

definition red_circle :: string where
  "red_circle = [CHR 0xF0, CHR 0x9F, CHR 0x94, CHR 0xB4]"

definition bar_chart :: string where
  "bar_chart = [CHR 0xF0, CHR 0x9F, CHR 0x93, CHR 0x8A]"

definition clock_one :: string where
  "clock_one = [CHR 0xF0, CHR 0x9F, CHR 0x95, CHR 0x90]"

definition open_folder :: string where
  "open_folder = [CHR 0xF0, CHR 0x9F, CHR 0x93, CHR 0x82]"

text \<open>Decimal digits of a natural number, as \<open>str\<close> prints them.\<close>

fun str_nat :: "nat \<Rightarrow> string" where
  "str_nat n =
     (if n < 10 then [''0123456789'' ! n]
      else str_nat (n div 10) @ [''0123456789'' ! (n mod 10)])"

declare str_nat.simps [simp del]

definition str_int :: "int \<Rightarrow> string" where
  "str_int i = (if i < 0 then ''-'' @ str_nat (nat (- i)) else str_nat (nat i))"

text \<open>The format \<open>{i:02d}\<close>: the sign counts towards the width of two.\<close>

definition fmt_02d :: "int \<Rightarrow> string" where
  "fmt_02d i = (if 0 \<le> i \<and> i < 10 then ''0'' @ str_int i else str_int i)"

text \<open>What an f-string prints for a cell.\<close>

fun py_str :: "cell \<Rightarrow> string" where
  "py_str CNone = ''None''"
| "py_str (CInt i) = str_int i"
| "py_str (CStr s) = s"

text \<open>\<open>timestamp.replace("Z", "+00:00")\<close>.\<close>

definition replace_Z :: "string \<Rightarrow> string" where
  "replace_Z s = concat (map (\<lambda>c. if c = CHR ''Z'' then ''+00:00'' else [c]) s)"

text \<open>\<open>strftime("%Hh")\<close>: the hour on two digits, then the letter h.\<close>

definition strftime_Hh :: "datetime \<Rightarrow> string" where
  "strftime_Hh dt = fmt_02d (int (dt_hour dt)) @ ''h''"

section \<open>format\_duration and get\_productivity\_label\<close>

definition format_duration :: "int \<Rightarrow> string" where
  "format_duration secs =
     (let hours = secs div 3600;
          minutes = (secs mod 3600) div 60
      in if hours > 0 then str_int hours @ ''h'' @ fmt_02d minutes
         else str_int minutes @ ''min'')"

definition get_productivity_label :: "int \<Rightarrow> string" where
  "get_productivity_label score =
     (if score = 2 then green_circle @ '' Tr'' @ e_grave @ ''s productif''
      else if score = 1 then blue_circle @ '' Productif''
      else if score = 0 then white_circle @ '' Neutre''
      else if score = - 1 then orange_circle @ '' Distrayant''
      else if score = - 2 then red_circle @ '' Tr'' @ e_grave @ ''s distrayant''
      else white_circle @ '' Neutre'')"

section \<open>generate\_report\<close>

definition no_data :: string where
  "no_data = ''Aucune donn'' @ e_acute @ ''e RescueTime disponible pour aujourd'hui.''"

definition empty_bucket :: bucket where
  "empty_bucket =
     \<lparr>activities = [], total_seconds = 0, productive_seconds = 0, distracting_seconds = 0\<rparr>"

text \<open>
  Reading \<open>hourly_data[hour]\<close> and \<open>category_totals[category]\<close>: both are
  \<open>defaultdict\<close>s, so a key that is not there yet reads as the default.
\<close>

definition bucket_of :: "(string \<times> bucket) list \<Rightarrow> string \<Rightarrow> bucket" where
  "bucket_of hdata hour = (case map_of hdata hour of None \<Rightarrow> empty_bucket | Some b \<Rightarrow> b)"

definition total_of :: "(cell \<times> int) list \<Rightarrow> cell \<Rightarrow> int" where
  "total_of ctot c = (case map_of ctot c of None \<Rightarrow> 0 | Some n \<Rightarrow> n)"

definition init_agg :: agg where
  "init_agg =
     \<lparr>hourly_data = [], category_totals = [], total_productive = 0, total_distracting = 0,
      total_time = 0\<rparr>"

text \<open>
  The body of the loop over the rows (lines 55 to 68). \<open>fromisoformat\<close> is the library's
  parser, \<open>None\<close> where it raises. The exceptions are the ones Python raises, in the
  order it reaches them: indexing a row shorter than six cells, calling \<open>replace\<close> on a
  cell that is no string, an unparseable timestamp, adding a duration that is no integer
  to an integer, comparing a productivity that is no integer with 1.
\<close>

definition process_row :: "(string \<Rightarrow> datetime option) \<Rightarrow> agg \<Rightarrow> row \<Rightarrow> error + agg" where
  "process_row fromisoformat st r =
     (if length r < 6 then Inl IndexError
      else case r ! 0 of
        CStr timestamp \<Rightarrow>
          (case fromisoformat (replace_Z timestamp) of
             None \<Rightarrow> Inl InvalidIsoformat
           | Some dt \<Rightarrow>
               (case r ! 1 of
                  CInt secs \<Rightarrow>
                    (case r ! 5 of
                       CInt score \<Rightarrow>
                         (let hour = strftime_Hh dt;
                              b = bucket_of (hourly_data st) hour;
                              b1 = b\<lparr>activities := activities b @
                                       [\<lparr>act_name = r ! 3, act_seconds = secs,
                                         act_productivity = score, act_category = r ! 4\<rparr>],
                                     total_seconds := total_seconds b + secs\<rparr>;
                              b2 = (if score \<ge> 1
                                    then b1\<lparr>productive_seconds := productive_seconds b1 + secs\<rparr>
                                    else if score \<le> - 1
                                    then b1\<lparr>distracting_seconds := distracting_seconds b1 + secs\<rparr>
                                    else b1)
                          in Inr (st\<lparr>hourly_data := AList.update hour b2 (hourly_data st),
                                     category_totals :=
                                       AList.update (r ! 4)
                                         (total_of (category_totals st) (r ! 4) + secs)
                                         (category_totals st),
                                     total_time := total_time st + secs,
                                     total_productive :=
                                       (if score \<ge> 1 then total_productive st + secs
                                        else total_productive st),
                                     total_distracting :=
                                       (if score \<ge> 1 then total_distracting st
                                        else if score \<le> - 1 then total_distracting st + secs
                                        else total_distracting st)\<rparr>))
                     | _ \<Rightarrow> Inl TypeError)
                | _ \<Rightarrow> Inl TypeError))
      | _ \<Rightarrow> Inl AttributeError)"

text \<open>The loop: an exception in one row ends the run.\<close>

fun aggregate :: "(string \<Rightarrow> datetime option) \<Rightarrow> agg \<Rightarrow> row list \<Rightarrow> error + agg" where
  "aggregate fromisoformat st [] = Inr st"
| "aggregate fromisoformat st (r # rs) =
     (case process_row fromisoformat st r of
        Inl e \<Rightarrow> Inl e
      | Inr st' \<Rightarrow> aggregate fromisoformat st' rs)"

text \<open>
  \<open>sorted(..., key=..., reverse=True)\<close> is stable also when reversed: elements with
  equal keys keep their order. \<open>sort_key\<close> on the negated key is that sort.
\<close>

definition top_activities :: "activity list \<Rightarrow> activity list" where
  "top_activities acts = take 3 (sort_key (\<lambda>x. - act_seconds x) acts)"

definition activity_line :: "activity \<Rightarrow> string" where
  "activity_line act =
     ''- **'' @ py_str (act_name act) @ ''** ('' @ format_duration (act_seconds act) @ '') ''
       @ get_productivity_label (act_productivity act) @ nl"

definition hour_section :: "string \<Rightarrow> bucket \<Rightarrow> string" where
  "hour_section hour data_hour =
     ''### '' @ hour @ '' - '' @ format_duration (total_seconds data_hour) @ nl
       @ concat (map activity_line (top_activities (activities data_hour)))
       @ nl"

definition sorted_categories :: "(cell \<times> int) list \<Rightarrow> (cell \<times> int) list" where
  "sorted_categories ctot = sort_key (\<lambda>x. - snd x) ctot"

definition category_line :: "cell \<times> int \<Rightarrow> string" where
  "category_line x = ''| '' @ py_str (fst x) @ '' | '' @ format_duration (snd x) @ '' |'' @ nl"

text \<open>\<open>part*100//total if total else 0\<close>; \<open>div\<close> on \<open>int\<close> rounds down, as \<open>//\<close> does.\<close>

definition percent :: "int \<Rightarrow> int \<Rightarrow> int" where
  "percent part whole = (if whole \<noteq> 0 then part * 100 div whole else 0)"

text \<open>Lines 70 to 92: the text of the report, from the variables the loop leaves.\<close>

definition render :: "string \<Rightarrow> agg \<Rightarrow> string" where
  "render today st =
     ''# '' @ bar_chart @ '' Rapport RescueTime - '' @ today @ nl @ nl
     @ ''**Temps total suivi** : '' @ format_duration (total_time st) @ nl
     @ ''**Temps productif** : '' @ format_duration (total_productive st)
       @ '' ('' @ str_int (percent (total_productive st) (total_time st)) @ ''%)'' @ nl
     @ ''**Temps distrayant** : '' @ format_duration (total_distracting st)
       @ '' ('' @ str_int (percent (total_distracting st) (total_time st)) @ ''%)'' @ nl @ nl
     @ ''---'' @ nl @ nl @ ''## '' @ clock_one @ '' D'' @ e_acute @ ''tail par heure'' @ nl @ nl
     @ concat (map (\<lambda>hour. hour_section hour (bucket_of (hourly_data st) hour))
                (sort (map fst (hourly_data st))))
     @ ''---'' @ nl @ nl @ ''## '' @ open_folder @ '' R'' @ e_acute @ ''capitulatif par cat''
       @ e_acute @ ''gorie'' @ nl @ nl
     @ ''| Cat'' @ e_acute @ ''gorie | Temps |'' @ nl @ ''|-----------|-------|'' @ nl
     @ concat (map category_line (sorted_categories (category_totals st)))"

text \<open>
  \<open>today\<close> is the text of \<open>datetime.now().strftime("%d/%m/%Y")\<close>.
  \<open>data.get("rows", [])\<close> reads a missing key as the empty list, and \<open>not rows\<close>
  holds of the empty list only.
\<close>

definition generate_report :: "(string \<Rightarrow> datetime option) \<Rightarrow> string \<Rightarrow> data \<Rightarrow> error + string" where
  "generate_report fromisoformat today dat =
     (let rows = (case dat ''rows'' of None \<Rightarrow> [] | Some rs \<Rightarrow> rs)
      in if rows = [] then Inr no_data
         else case aggregate fromisoformat init_agg rows of
                Inl e \<Rightarrow> Inl e
              | Inr st \<Rightarrow> Inr (render today st))"

section \<open>Configuration, network and main\<close>

text \<open>
  \<open>os.environ\<close>, and the three module constants read from it when the module is loaded.
  \<open>not KEY\<close> holds when the variable is not set or is the empty string.
\<close>

type_synonym environ = "string \<rightharpoonup> string"

definition RESCUETIME_API_KEY :: "environ \<Rightarrow> string option" where
  "RESCUETIME_API_KEY environ = environ ''RESCUETIME_API_KEY''"

definition RESEND_API_KEY :: "environ \<Rightarrow> string option" where
  "RESEND_API_KEY environ = environ ''RESEND_API_KEY''"

definition EMAIL_TO :: "environ \<Rightarrow> string" where
  "EMAIL_TO environ =
     (case environ ''EMAIL_TO'' of None \<Rightarrow> ''lucjager67@gmail.com'' | Some a \<Rightarrow> a)"

definition unset :: "string option \<Rightarrow> bool" where
  "unset k = (k = None \<or> k = Some [])"

text \<open>
  The two HTTP calls are collaborators outside the script: what each returns after
  \<open>raise_for_status\<close> and \<open>json()\<close>, or the exception it raises.
\<close>

record email =
  email_from :: string
  email_to :: "string list"
  email_subject :: string
  email_html :: string

record network =
  http_get :: "string \<Rightarrow> (string \<times> string option) list \<Rightarrow> error + data"
  http_post :: "string \<Rightarrow> (string \<times> string) list \<Rightarrow> email \<Rightarrow> error + (string \<rightharpoonup> cell)"

text \<open>What a run does that can be seen from outside, in order.\<close>

datatype event = Print string | HttpGet string | HttpPost string

definition rescuetime_url :: string where
  "rescuetime_url = ''https://www.rescuetime.com/anapi/data''"

definition resend_url :: string where
  "resend_url = ''https://api.resend.com/emails''"

text \<open>\<open>today\<close> is the text of \<open>datetime.now().strftime("%Y-%m-%d")\<close>.\<close>

definition get_rescuetime_data :: "environ \<Rightarrow> string \<Rightarrow> network \<Rightarrow> error + data" where
  "get_rescuetime_data environ today net =
     http_get net rescuetime_url
       [(''key'', RESCUETIME_API_KEY environ),
        (''perspective'', Some ''interval''),
        (''resolution_time'', Some ''hour''),
        (''restrict_begin'', Some today),
        (''restrict_end'', Some today),
        (''format'', Some ''json'')]"

definition send_email :: "environ \<Rightarrow> network \<Rightarrow> string \<Rightarrow> string \<Rightarrow> error + (string \<rightharpoonup> cell)" where
  "send_email environ net subject body =
     http_post net resend_url
       [(''Authorization'',
           ''Bearer '' @ (case RESEND_API_KEY environ of None \<Rightarrow> ''None'' | Some k \<Rightarrow> k)),
        (''Content-Type'', ''application/json'')]
       \<lparr>email_from = ''RescueTime Report <onboarding@resend.dev>'',
        email_to = [EMAIL_TO environ],
        email_subject = subject,
        email_html =
          ''<pre style='font-family: monospace; white-space: pre-wrap;'>'' @ body @ ''</pre>''\<rparr>"

text \<open>
  \<open>main\<close> returns the events of the run and how it ends: \<open>Inl\<close> the exception that
  ends it, \<open>Inr ()\<close> when it returns. \<open>today_ymd\<close> and \<open>today_dmy\<close> are the two
  renderings of the clock the run asks for.
\<close>

definition main :: "environ \<Rightarrow> string \<Rightarrow> string \<Rightarrow> (string \<Rightarrow> datetime option) \<Rightarrow> network
    \<Rightarrow> event list \<times> (error + unit)" where
  "main environ today_ymd today_dmy fromisoformat net =
     (if unset (RESCUETIME_API_KEY environ)
      then ([], Inl (ValueError (''RESCUETIME_API_KEY non d'' @ e_acute @ ''finie'')))
      else if unset (RESEND_API_KEY environ)
      then ([], Inl (ValueError (''RESEND_API_KEY non d'' @ e_acute @ ''finie'')))
      else
        let t1 = [Print (''R'' @ e_acute @ ''cup'' @ e_acute @ ''ration des donn'' @ e_acute
                           @ ''es RescueTime...''),
                  HttpGet rescuetime_url]
        in case get_rescuetime_data environ today_ymd net of
             Inl e \<Rightarrow> (t1, Inl e)
           | Inr dat \<Rightarrow>
               let t2 = t1 @ [Print (''G'' @ e_acute @ ''n'' @ e_acute @ ''ration du rapport...'')]
               in case generate_report fromisoformat today_dmy dat of
                    Inl e \<Rightarrow> (t2, Inl e)
                  | Inr report \<Rightarrow>
                      let subject = bar_chart @ '' Rapport RescueTime - '' @ today_dmy;
                          t3 = t2 @ [Print ''Envoi de l'email...'', HttpPost resend_url]
                      in case send_email environ net subject report of
                           Inl e \<Rightarrow> (t3, Inl e)
                         | Inr result \<Rightarrow>
                             (t3 @ [Print (''Email envoy'' @ e_acute @ '' avec succ'' @ e_grave
                                            @ ''s ! ID: ''
                                            @ py_str (case result ''id'' of
                                                        None \<Rightarrow> CNone | Some c \<Rightarrow> c))],
                              Inr ()))"

text \<open>Whether an event is one of the two HTTP calls.\<close>

fun is_network :: "event \<Rightarrow> bool" where
  "is_network (Print _) = False"
| "is_network (HttpGet _) = True"
| "is_network (HttpPost _) = True"

section \<open>A parser to run the model on\<close>

text \<open>
  \<open>datetime.fromisoformat\<close> belongs to Python's library, so the functions above take it
  as an argument and the theorems below hold for every parser. To run the model on
  concrete rows, \<open>fromisoformat_seconds\<close> is the library's parser on the one shape
  the provider sends, \<open>YYYY-MM-DDTHH:MM:SS\<close>; every other text is rejected here, though
  the library accepts more shapes.
\<close>

definition digit_of :: "char \<Rightarrow> nat option" where
  "digit_of c = (if CHR ''0'' \<le> c \<and> c \<le> CHR ''9'' then Some (of_char c - 48) else None)"

fun number_of :: "nat \<Rightarrow> string \<Rightarrow> nat option" where
  "number_of acc [] = Some acc"
| "number_of acc (c # cs) =
     (case digit_of c of None \<Rightarrow> None | Some d \<Rightarrow> number_of (10 * acc + d) cs)"

definition days_in_month :: "nat \<Rightarrow> nat \<Rightarrow> nat" where
  "days_in_month y m =
     (if m = 2
      then (if y mod 400 = 0 then 29 else if y mod 100 = 0 then 28
            else if y mod 4 = 0 then 29 else 28)
      else if m = 4 then 30 else if m = 6 then 30 else if m = 9 then 30
      else if m = 11 then 30 else 31)"

definition fromisoformat_seconds :: "string \<Rightarrow> datetime option" where
  "fromisoformat_seconds s =
     (if length s = 19 \<and> s ! 4 = CHR ''-'' \<and> s ! 7 = CHR ''-'' \<and> s ! 10 = CHR ''T''
         \<and> s ! 13 = CHR '':'' \<and> s ! 16 = CHR '':''
      then case (number_of 0 (take 4 s), number_of 0 (take 2 (drop 5 s)),
                 number_of 0 (take 2 (drop 8 s)), number_of 0 (take 2 (drop 11 s)),
                 number_of 0 (take 2 (drop 14 s)), number_of 0 (take 2 (drop 17 s))) of
             (Some y, Some m, Some d, Some h, Some mi, Some se) \<Rightarrow>
               if 1 \<le> y \<and> 1 \<le> m \<and> m \<le> 12 \<and> 1 \<le> d \<and> d \<le> days_in_month y m
                  \<and> h < 24 \<and> mi < 60 \<and> se < 60
               then Some \<lparr>dt_year = y, dt_month = m, dt_day = d, dt_hour = h,
                          dt_minute = mi, dt_second = se\<rparr>
               else None
           | _ \<Rightarrow> None
      else None)"

section \<open>Reading a row\<close>

text \<open>
  The fields of a row as the loop reads them, to state what the report is computed from.
  A row is well formed when it has six cells, a timestamp the parser accepts, an integer
  duration and an integer productivity score.
\<close>

definition row_seconds :: "row \<Rightarrow> int" where
  "row_seconds r = (case r ! 1 of CInt n \<Rightarrow> n | _ \<Rightarrow> 0)"

definition row_score :: "row \<Rightarrow> int" where
  "row_score r = (case r ! 5 of CInt n \<Rightarrow> n | _ \<Rightarrow> 0)"

definition row_hour :: "(string \<Rightarrow> datetime option) \<Rightarrow> row \<Rightarrow> string" where
  "row_hour fromisoformat r =
     (case r ! 0 of
        CStr timestamp \<Rightarrow>
          (case fromisoformat (replace_Z timestamp) of
             Some dt \<Rightarrow> strftime_Hh dt
           | None \<Rightarrow> [])
      | _ \<Rightarrow> [])"

definition row_activity :: "row \<Rightarrow> activity" where
  "row_activity r =
     \<lparr>act_name = r ! 3, act_seconds = row_seconds r, act_productivity = row_score r,
      act_category = r ! 4\<rparr>"

definition well_formed :: "(string \<Rightarrow> datetime option) \<Rightarrow> row \<Rightarrow> bool" where
  "well_formed fromisoformat r =
     (length r = 6
      \<and> (case r ! 0 of
            CStr timestamp \<Rightarrow>
              (case fromisoformat (replace_Z timestamp) of Some _ \<Rightarrow> True | None \<Rightarrow> False)
          | _ \<Rightarrow> False)
      \<and> (case r ! 1 of CInt _ \<Rightarrow> True | _ \<Rightarrow> False)
      \<and> (case r ! 5 of CInt _ \<Rightarrow> True | _ \<Rightarrow> False))"

text \<open>Rows to run the model on: three hours, four categories, a tie between two of them.\<close>

definition example_rows :: "row list" where
  "example_rows =
     [[CStr ''2024-01-15T09:00:00'', CInt 3600, CInt 1, CStr ''A'', CStr ''Work'', CInt 2],
      [CStr ''2024-01-15T09:00:00'', CInt 1800, CInt 1, CStr ''B'', CStr ''Social'', CInt (- 2)],
      [CStr ''2024-01-15T08:00:00'', CInt 1700, CInt 1, CStr ''C'', CStr ''Mail'', CInt 0],
      [CStr ''2024-01-15T08:00:00'', CInt 100, CInt 1, CStr ''D'', CStr ''Mail'', CInt 1],
      [CStr ''2024-01-15T08:00:00'', CInt 200, CInt 1, CStr ''E'', CStr ''Social'', CInt (- 1)],
      [CStr ''2024-01-15T08:00:00'', CInt 50, CInt 1, CStr ''F'', CStr ''Work'', CInt 2],
      [CStr ''2024-01-15T10:00:00'', CInt 1800, CInt 1, CStr ''G'', CStr ''News'', CInt (- 1)]]"

section \<open>Lemmas on the loop\<close>

lemma sum_list_update:
  fixes f :: "'v \<Rightarrow> int"
  shows "sum_list (map (\<lambda>p. f (snd p)) (AList.update k v al)) =
         sum_list (map (\<lambda>p. f (snd p)) al) - (case map_of al k of None \<Rightarrow> 0 | Some w \<Rightarrow> f w) + f v"
  by (induction al) auto

lemma bucket_of_update:
  "bucket_of (AList.update k v al) h = (if h = k then v else bucket_of al h)"
  by (simp add: bucket_of_def update_conv')

lemma total_of_update:
  "total_of (AList.update k v al) c = (if c = k then v else total_of al c)"
  by (simp add: total_of_def update_conv')

lemma process_row_well_formed:
  "well_formed fi r \<Longrightarrow> \<exists>st'. process_row fi st r = Inr st'"
  by (auto simp: well_formed_def process_row_def Let_def split: cell.splits option.splits)

lemma process_row_totals:
  assumes "process_row fi st r = Inr st'"
  shows "total_time st' = total_time st + row_seconds r"
    and "total_productive st' = total_productive st + (if row_score r \<ge> 1 then row_seconds r else 0)"
    and "total_distracting st' =
           total_distracting st + (if row_score r \<le> - 1 then row_seconds r else 0)"
    and "category_totals st' =
           AList.update (r ! 4) (total_of (category_totals st) (r ! 4) + row_seconds r)
             (category_totals st)"
  using assms
  by (auto simp: process_row_def Let_def row_seconds_def row_score_def
           split: if_splits cell.splits option.splits)

lemma process_row_hourly:
  assumes "process_row fi st r = Inr st'"
  shows "\<exists>b'. hourly_data st' = AList.update (row_hour fi r) b' (hourly_data st)
          \<and> activities b' = activities (bucket_of (hourly_data st) (row_hour fi r)) @ [row_activity r]
          \<and> total_seconds b' = total_seconds (bucket_of (hourly_data st) (row_hour fi r)) + row_seconds r
          \<and> productive_seconds b' = productive_seconds (bucket_of (hourly_data st) (row_hour fi r))
               + (if row_score r \<ge> 1 then row_seconds r else 0)
          \<and> distracting_seconds b' = distracting_seconds (bucket_of (hourly_data st) (row_hour fi r))
               + (if row_score r \<le> - 1 then row_seconds r else 0)"
  using assms
  by (auto simp: process_row_def Let_def row_seconds_def row_score_def row_hour_def row_activity_def
           split: if_splits cell.splits option.splits)

lemma aggregate_well_formed:
  "list_all (well_formed fi) rows \<Longrightarrow> \<exists>st'. aggregate fi st rows = Inr st'"
proof (induction rows arbitrary: st)
  case Nil
  then show ?case by simp
next
  case (Cons r rows)
  then obtain st1 where "process_row fi st r = Inr st1"
    using process_row_well_formed[of fi r st] by auto
  with Cons show ?case by simp
qed

lemma aggregate_totals:
  "aggregate fi st rows = Inr st' \<Longrightarrow>
     total_time st' = total_time st + sum_list (map row_seconds rows)
   \<and> total_productive st' =
       total_productive st + sum_list (map row_seconds (filter (\<lambda>r. row_score r \<ge> 1) rows))
   \<and> total_distracting st' =
       total_distracting st + sum_list (map row_seconds (filter (\<lambda>r. row_score r \<le> - 1) rows))"
proof (induction rows arbitrary: st)
  case Nil
  then show ?case by simp
next
  case (Cons r rows)
  then obtain st1 where s1: "process_row fi st r = Inr st1" and s2: "aggregate fi st1 rows = Inr st'"
    by (auto split: sum.splits)
  show ?case
    using Cons.IH[OF s2] process_row_totals(1-3)[OF s1] by simp
qed

lemma process_row_sums:
  assumes "process_row fi st r = Inr st'"
  shows "sum_list (map (\<lambda>p. total_seconds (snd p)) (hourly_data st')) =
         sum_list (map (\<lambda>p. total_seconds (snd p)) (hourly_data st)) + row_seconds r"
    and "sum_list (map snd (category_totals st')) = sum_list (map snd (category_totals st)) + row_seconds r"
    and "distinct (map fst (hourly_data st)) \<Longrightarrow> distinct (map fst (hourly_data st'))"
    and "distinct (map fst (category_totals st)) \<Longrightarrow> distinct (map fst (category_totals st'))"
proof -
  from process_row_hourly[OF assms] obtain b' where
    h: "hourly_data st' = AList.update (row_hour fi r) b' (hourly_data st)"
    and t: "total_seconds b' = total_seconds (bucket_of (hourly_data st) (row_hour fi r)) + row_seconds r"
    by blast
  show "sum_list (map (\<lambda>p. total_seconds (snd p)) (hourly_data st')) =
         sum_list (map (\<lambda>p. total_seconds (snd p)) (hourly_data st)) + row_seconds r"
    unfolding h sum_list_update[of total_seconds] t
    by (simp add: bucket_of_def empty_bucket_def split: option.splits)
  have c: "category_totals st' =
           AList.update (r ! 4) (total_of (category_totals st) (r ! 4) + row_seconds r)
             (category_totals st)"
    by (rule process_row_totals(4)[OF assms])
  show "sum_list (map snd (category_totals st')) = sum_list (map snd (category_totals st)) + row_seconds r"
    unfolding c using sum_list_update[of "\<lambda>x. x" "r ! 4" _ "category_totals st"]
    by (simp add: total_of_def split: option.splits)
  show "distinct (map fst (hourly_data st)) \<Longrightarrow> distinct (map fst (hourly_data st'))"
    unfolding h by (rule distinct_update)
  show "distinct (map fst (category_totals st)) \<Longrightarrow> distinct (map fst (category_totals st'))"
    unfolding c by (rule distinct_update)
qed

lemma aggregate_sums:
  "aggregate fi st rows = Inr st' \<Longrightarrow>
     sum_list (map (\<lambda>p. total_seconds (snd p)) (hourly_data st')) =
       sum_list (map (\<lambda>p. total_seconds (snd p)) (hourly_data st)) + sum_list (map row_seconds rows)
   \<and> sum_list (map snd (category_totals st')) =
       sum_list (map snd (category_totals st)) + sum_list (map row_seconds rows)
   \<and> (distinct (map fst (hourly_data st)) \<longrightarrow> distinct (map fst (hourly_data st')))
   \<and> (distinct (map fst (category_totals st)) \<longrightarrow> distinct (map fst (category_totals st')))"
proof (induction rows arbitrary: st)
  case Nil
  then show ?case by simp
next
  case (Cons r rows)
  then obtain st1 where s1: "process_row fi st r = Inr st1" and s2: "aggregate fi st1 rows = Inr st'"
    by (auto split: sum.splits)
  show ?case
    using Cons.IH[OF s2] process_row_sums[OF s1] by simp
qed

lemma aggregate_bucket:
  "aggregate fi st rows = Inr st' \<Longrightarrow>
     activities (bucket_of (hourly_data st') h) =
       activities (bucket_of (hourly_data st) h)
         @ map row_activity (filter (\<lambda>r. row_hour fi r = h) rows)
   \<and> total_seconds (bucket_of (hourly_data st') h) =
       total_seconds (bucket_of (hourly_data st) h)
         + sum_list (map row_seconds (filter (\<lambda>r. row_hour fi r = h) rows))
   \<and> productive_seconds (bucket_of (hourly_data st') h) =
       productive_seconds (bucket_of (hourly_data st) h)
         + sum_list (map row_seconds (filter (\<lambda>r. row_hour fi r = h \<and> row_score r \<ge> 1) rows))
   \<and> distracting_seconds (bucket_of (hourly_data st') h) =
       distracting_seconds (bucket_of (hourly_data st) h)
         + sum_list (map row_seconds (filter (\<lambda>r. row_hour fi r = h \<and> row_score r \<le> - 1) rows))
   \<and> fst ` set (hourly_data st') = fst ` set (hourly_data st) \<union> row_hour fi ` set rows"
proof (induction rows arbitrary: st)
  case Nil
  then show ?case by simp
next
  case (Cons r rows)
  then obtain st1 where s1: "process_row fi st r = Inr st1" and s2: "aggregate fi st1 rows = Inr st'"
    by (auto split: sum.splits)
  from process_row_hourly[OF s1] obtain b' where
    h: "hourly_data st1 = AList.update (row_hour fi r) b' (hourly_data st)"
    and a: "activities b' = activities (bucket_of (hourly_data st) (row_hour fi r)) @ [row_activity r]"
    and t: "total_seconds b' = total_seconds (bucket_of (hourly_data st) (row_hour fi r)) + row_seconds r"
    and p: "productive_seconds b' = productive_seconds (bucket_of (hourly_data st) (row_hour fi r))
               + (if row_score r \<ge> 1 then row_seconds r else 0)"
    and d: "distracting_seconds b' = distracting_seconds (bucket_of (hourly_data st) (row_hour fi r))
               + (if row_score r \<le> - 1 then row_seconds r else 0)"
    by blast
  have k: "fst ` set (hourly_data st1) = {row_hour fi r} \<union> fst ` set (hourly_data st)"
    unfolding h by (rule dom_update)
  show ?case
    using Cons.IH[OF s2, unfolded h bucket_of_update] a t p d k[unfolded h]
    by (cases "h = row_hour fi r") auto
qed


lemma sum_list_three_way:
  fixes f :: "'a \<Rightarrow> int"
  assumes "\<And>x. \<not> (P x \<and> Q x)"
  shows "sum_list (map f xs) =
         sum_list (map f (filter P xs)) + sum_list (map f (filter Q xs))
           + sum_list (map f (filter (\<lambda>x. \<not> P x \<and> \<not> Q x) xs))"
  using assms by (induction xs) auto


section \<open>Lemmas on sorting and the text of the report\<close>

lemma sort_key_descending:
  fixes f :: "'a \<Rightarrow> int"
  shows "sorted_wrt (\<lambda>x y. f x \<ge> f y) (sort_key (\<lambda>x. - f x) xs)"
proof -
  have "sorted (map (\<lambda>x. - f x) (sort_key (\<lambda>x. - f x) xs))"
    by (rule sorted_sort_key)
  then have "sorted_wrt (\<lambda>x y. - f x \<le> - f y) (sort_key (\<lambda>x. - f x) xs)"
    unfolding sorted_wrt_map by simp
  then show ?thesis
    by simp
qed






lemma aggregate_category:
  "aggregate fi st rows = Inr st' \<Longrightarrow>
     total_of (category_totals st') c =
       total_of (category_totals st) c + sum_list (map row_seconds (filter (\<lambda>r. r ! 4 = c) rows))
   \<and> fst ` set (category_totals st') = fst ` set (category_totals st) \<union> (\<lambda>r. r ! 4) ` set rows"
proof (induction rows arbitrary: st)
  case Nil
  then show ?case by simp
next
  case (Cons r rows)
  then obtain st1 where s1: "process_row fi st r = Inr st1" and s2: "aggregate fi st1 rows = Inr st'"
    by (auto split: sum.splits)
  note c = process_row_totals(4)[OF s1]
  have k: "fst ` set (category_totals st1) = {r ! 4} \<union> fst ` set (category_totals st)"
    unfolding c by (rule dom_update)
  have t: "total_of (category_totals st1) c
             = total_of (category_totals st) c + (if r ! 4 = c then row_seconds r else 0)"
    unfolding c total_of_update by auto
  show ?case
    using Cons.IH[OF s2] k t by auto
qed

lemma render_ends_with_table:
  "\<exists>before. render today st
           = before @ concat (map category_line (sorted_categories (category_totals st)))"
  unfolding render_def append_assoc[symmetric] by (rule exI) (rule refl)

section \<open>Theorems\<close>

text \<open>
  C1: for every sequence of well-formed rows the loop ends without an exception, and in
  the variables it leaves the sum of \<open>total_seconds\<close> over the hour buckets equals the
  sum of the category totals, and both equal \<open>total_time\<close>, the sum of the durations
  of all rows. The keys of both dictionaries are distinct, so the sums over the
  association lists are the sums over the dictionaries.
\<close>

theorem totals_agree:
  assumes "list_all (well_formed fi) rows"
  shows "\<exists>st. aggregate fi init_agg rows = Inr st
     \<and> distinct (map fst (hourly_data st))
     \<and> distinct (map fst (category_totals st))
     \<and> sum_list (map (\<lambda>p. total_seconds (snd p)) (hourly_data st))
         = sum_list (map snd (category_totals st))
     \<and> sum_list (map snd (category_totals st)) = total_time st
     \<and> total_time st = sum_list (map row_seconds rows)"
proof -
  from aggregate_well_formed[OF assms] obtain st where s: "aggregate fi init_agg rows = Inr st"
    by blast
  show ?thesis
    using s aggregate_sums[OF s] aggregate_totals[OF s] by (simp add: init_agg_def)
qed

theorem totals_agree_witness:
  "list_all (well_formed fromisoformat_seconds) example_rows
   \<and> (\<exists>st. aggregate fromisoformat_seconds init_agg example_rows = Inr st
        \<and> sum_list (map (\<lambda>p. total_seconds (snd p)) (hourly_data st)) = 9250
        \<and> sum_list (map snd (category_totals st)) = 9250
        \<and> total_time st = 9250)"
proof -
  have h: "list_all (well_formed fromisoformat_seconds) example_rows"
    by code_simp
  have n: "sum_list (map row_seconds example_rows) = 9250"
    by code_simp
  show ?thesis
    using h totals_agree[OF h] by (auto simp: n)
qed



text \<open>
  C5: \<open>format_duration\<close> returns "1h01" on 3661, "1min" on 90 and "0min" on 0.
\<close>

theorem format_duration_examples:
  "format_duration 3661 = ''1h01'' \<and> format_duration 90 = ''1min'' \<and> format_duration 0 = ''0min''"
  by code_simp

text \<open>
  C3: the seconds of a row are counted as productive exactly when its score is at least
  1 and as distracting exactly when its score is at most -1, in the totals and in the
  bucket of its hour; the seconds of every other row are counted in \<open>total_time\<close>
  only. For the two rows \<open>(T, 3600, _, "A", "Work", 2)\<close> and
  \<open>(T, 1800, _, "B", "Social", -2)\<close>, with any timestamp \<open>T\<close> the parser accepts,
  \<open>total_time\<close> is 5400, the productive time 3600 with percentage 66 and the
  distracting time 1800 with percentage 33.
\<close>

theorem classification:
  "(list_all (well_formed fi) rows \<longrightarrow>
      (\<exists>st. aggregate fi init_agg rows = Inr st
         \<and> total_productive st = sum_list (map row_seconds (filter (\<lambda>r. row_score r \<ge> 1) rows))
         \<and> total_distracting st = sum_list (map row_seconds (filter (\<lambda>r. row_score r \<le> - 1) rows))
         \<and> total_time st - total_productive st - total_distracting st
             = sum_list (map row_seconds
                 (filter (\<lambda>r. \<not> row_score r \<ge> 1 \<and> \<not> row_score r \<le> - 1) rows))
         \<and> (\<forall>h. productive_seconds (bucket_of (hourly_data st) h)
                   = sum_list (map row_seconds
                       (filter (\<lambda>r. row_hour fi r = h \<and> row_score r \<ge> 1) rows))
                \<and> distracting_seconds (bucket_of (hourly_data st) h)
                   = sum_list (map row_seconds
                       (filter (\<lambda>r. row_hour fi r = h \<and> row_score r \<le> - 1) rows)))))
   \<and> (fi (replace_Z T) = Some dt \<longrightarrow>
      (\<exists>st. aggregate fi init_agg
               [[CStr T, CInt 3600, u, CStr ''A'', CStr ''Work'', CInt 2],
                [CStr T, CInt 1800, u', CStr ''B'', CStr ''Social'', CInt (- 2)]] = Inr st
         \<and> total_time st = 5400
         \<and> total_productive st = 3600
         \<and> percent (total_productive st) (total_time st) = 66
         \<and> total_distracting st = 1800
         \<and> percent (total_distracting st) (total_time st) = 33))"
proof (intro conjI impI)
  assume wf: "list_all (well_formed fi) rows"
  from aggregate_well_formed[OF wf] obtain st where s: "aggregate fi init_agg rows = Inr st"
    by blast
  note t = aggregate_totals[OF s, unfolded init_agg_def, simplified]
  have n: "total_time st - total_productive st - total_distracting st
             = sum_list (map row_seconds
                 (filter (\<lambda>r. \<not> row_score r \<ge> 1 \<and> \<not> row_score r \<le> - 1) rows))"
    using t sum_list_three_way[of "\<lambda>r. row_score r \<ge> 1" "\<lambda>r. row_score r \<le> - 1" row_seconds rows]
    by simp
  have b: "productive_seconds (bucket_of (hourly_data st) h)
                   = sum_list (map row_seconds
                       (filter (\<lambda>r. row_hour fi r = h \<and> row_score r \<ge> 1) rows))
                \<and> distracting_seconds (bucket_of (hourly_data st) h)
                   = sum_list (map row_seconds
                       (filter (\<lambda>r. row_hour fi r = h \<and> row_score r \<le> - 1) rows))" for h
    using aggregate_bucket[OF s, of h]
    by (simp add: init_agg_def bucket_of_def empty_bucket_def)
  show "\<exists>st. aggregate fi init_agg rows = Inr st
         \<and> total_productive st = sum_list (map row_seconds (filter (\<lambda>r. row_score r \<ge> 1) rows))
         \<and> total_distracting st = sum_list (map row_seconds (filter (\<lambda>r. row_score r \<le> - 1) rows))
         \<and> total_time st - total_productive st - total_distracting st
             = sum_list (map row_seconds
                 (filter (\<lambda>r. \<not> row_score r \<ge> 1 \<and> \<not> row_score r \<le> - 1) rows))
         \<and> (\<forall>h. productive_seconds (bucket_of (hourly_data st) h)
                   = sum_list (map row_seconds
                       (filter (\<lambda>r. row_hour fi r = h \<and> row_score r \<ge> 1) rows))
                \<and> distracting_seconds (bucket_of (hourly_data st) h)
                   = sum_list (map row_seconds
                       (filter (\<lambda>r. row_hour fi r = h \<and> row_score r \<le> - 1) rows)))"
    using s t n b by blast
next
  assume p: "fi (replace_Z T) = Some dt"
  show "\<exists>st. aggregate fi init_agg
               [[CStr T, CInt 3600, u, CStr ''A'', CStr ''Work'', CInt 2],
                [CStr T, CInt 1800, u', CStr ''B'', CStr ''Social'', CInt (- 2)]] = Inr st
         \<and> total_time st = 5400
         \<and> total_productive st = 3600
         \<and> percent (total_productive st) (total_time st) = 66
         \<and> total_distracting st = 1800
         \<and> percent (total_distracting st) (total_time st) = 33"
    using p by (simp add: process_row_def Let_def init_agg_def percent_def)
qed

theorem classification_witness:
  "list_all (well_formed fromisoformat_seconds) example_rows
   \<and> fromisoformat_seconds (replace_Z ''2024-01-15T09:00:00Z'') = None
   \<and> fromisoformat_seconds (replace_Z ''2024-01-15T09:00:00'')
       = Some \<lparr>dt_year = 2024, dt_month = 1, dt_day = 15, dt_hour = 9, dt_minute = 0,
               dt_second = 0\<rparr>
   \<and> (\<exists>st. aggregate fromisoformat_seconds init_agg example_rows = Inr st
        \<and> total_productive st = 3600 + 100 + 50
        \<and> total_distracting st = 1800 + 200 + 1800
        \<and> total_time st - total_productive st - total_distracting st = 1700
        \<and> productive_seconds (bucket_of (hourly_data st) ''08h'') = 150
        \<and> distracting_seconds (bucket_of (hourly_data st) ''08h'') = 200)
   \<and> (\<exists>st. aggregate fromisoformat_seconds init_agg
              [[CStr ''2024-01-15T09:00:00'', CInt 3600, CNone, CStr ''A'', CStr ''Work'', CInt 2],
               [CStr ''2024-01-15T09:00:00'', CInt 1800, CNone, CStr ''B'', CStr ''Social'',
                CInt (- 2)]] = Inr st
        \<and> total_time st = 5400
        \<and> total_productive st = 3600
        \<and> percent (total_productive st) (total_time st) = 66
        \<and> total_distracting st = 1800
        \<and> percent (total_distracting st) (total_time st) = 33)"
proof -
  have h: "list_all (well_formed fromisoformat_seconds) example_rows"
    by code_simp
  have z: "fromisoformat_seconds (replace_Z ''2024-01-15T09:00:00Z'') = None"
    by code_simp
  have p: "fromisoformat_seconds (replace_Z ''2024-01-15T09:00:00'')
       = Some \<lparr>dt_year = 2024, dt_month = 1, dt_day = 15, dt_hour = 9, dt_minute = 0,
               dt_second = 0\<rparr>"
    by code_simp
  have v: "sum_list (map row_seconds (filter (\<lambda>r. row_score r \<ge> 1) example_rows)) = 3750"
    "sum_list (map row_seconds (filter (\<lambda>r. row_score r \<le> - 1) example_rows)) = 3800"
    "sum_list (map row_seconds
       (filter (\<lambda>r. \<not> row_score r \<ge> 1 \<and> \<not> row_score r \<le> - 1) example_rows)) = 1700"
    "sum_list (map row_seconds
       (filter (\<lambda>r. row_hour fromisoformat_seconds r = ''08h'' \<and> row_score r \<ge> 1) example_rows)) = 150"
    "sum_list (map row_seconds
       (filter (\<lambda>r. row_hour fromisoformat_seconds r = ''08h'' \<and> row_score r \<le> - 1) example_rows)) = 200"
    by code_simp+
  note c = classification[of fromisoformat_seconds example_rows "''2024-01-15T09:00:00''"
      "\<lparr>dt_year = 2024, dt_month = 1, dt_day = 15, dt_hour = 9, dt_minute = 0, dt_second = 0\<rparr>"
      CNone CNone]
  note c1 = c[THEN conjunct1, THEN mp, OF h]
  from c1 obtain st where
    s: "aggregate fromisoformat_seconds init_agg example_rows = Inr st"
    and tp: "total_productive st
               = sum_list (map row_seconds (filter (\<lambda>r. row_score r \<ge> 1) example_rows))"
    and td: "total_distracting st
               = sum_list (map row_seconds (filter (\<lambda>r. row_score r \<le> - 1) example_rows))"
    and tn: "total_time st - total_productive st - total_distracting st
               = sum_list (map row_seconds
                   (filter (\<lambda>r. \<not> row_score r \<ge> 1 \<and> \<not> row_score r \<le> - 1) example_rows))"
    and bk: "\<forall>h. productive_seconds (bucket_of (hourly_data st) h)
                   = sum_list (map row_seconds
                       (filter (\<lambda>r. row_hour fromisoformat_seconds r = h \<and> row_score r \<ge> 1)
                          example_rows))
                \<and> distracting_seconds (bucket_of (hourly_data st) h)
                   = sum_list (map row_seconds
                       (filter (\<lambda>r. row_hour fromisoformat_seconds r = h \<and> row_score r \<le> - 1)
                          example_rows))"
    by blast
  have a: "\<exists>st. aggregate fromisoformat_seconds init_agg example_rows = Inr st
        \<and> total_productive st = 3600 + 100 + 50
        \<and> total_distracting st = 1800 + 200 + 1800
        \<and> total_time st - total_productive st - total_distracting st = 1700
        \<and> productive_seconds (bucket_of (hourly_data st) ''08h'') = 150
        \<and> distracting_seconds (bucket_of (hourly_data st) ''08h'') = 200"
    using s tp td tn bk[rule_format, of "''08h''"] unfolding v by simp
  from c[THEN conjunct2, THEN mp, OF p] have b: "\<exists>st. aggregate fromisoformat_seconds init_agg
              [[CStr ''2024-01-15T09:00:00'', CInt 3600, CNone, CStr ''A'', CStr ''Work'', CInt 2],
               [CStr ''2024-01-15T09:00:00'', CInt 1800, CNone, CStr ''B'', CStr ''Social'',
                CInt (- 2)]] = Inr st
        \<and> total_time st = 5400
        \<and> total_productive st = 3600
        \<and> percent (total_productive st) (total_time st) = 66
        \<and> total_distracting st = 1800
        \<and> percent (total_distracting st) (total_time st) = 33"
    by blast
  show ?thesis using h z p a b by blast
qed

text \<open>
  C4: when the array of rows is empty, \<open>generate_report\<close> returns, as a value and not
  as an exception, exactly the sentence "Aucune donn\'ee RescueTime disponible pour
  aujourd'hui." (in UTF-8), whatever the date: nothing is formatted.
\<close>

theorem empty_rows_sentinel:
  "dat ''rows'' = Some [] \<Longrightarrow>
     generate_report fi today dat
       = Inr (''Aucune donn'' @ [CHR 0xC3, CHR 0xA9]
                @ ''e RescueTime disponible pour aujourd'hui.'')"
  by (simp add: generate_report_def no_data_def e_acute_def)

theorem empty_rows_sentinel_witness:
  "generate_report fromisoformat_seconds ''15/01/2024'' [''rows'' \<mapsto> []]
     = Inr (''Aucune donn'' @ [CHR 0xC3, CHR 0xA9]
              @ ''e RescueTime disponible pour aujourd'hui.'')"
  using empty_rows_sentinel[of "[''rows'' \<mapsto> []]" fromisoformat_seconds "''15/01/2024''"]
  by simp

text \<open>
  C9: for a non-empty array of well-formed rows, \<open>generate_report\<close> raises no exception:
  the loop leaves its variables and the report rendered from them is returned.
\<close>

theorem report_returned:
  assumes "rows \<noteq> []"
    and "list_all (well_formed fi) rows"
    and "dat ''rows'' = Some rows"
  shows "\<exists>st. aggregate fi init_agg rows = Inr st
           \<and> generate_report fi today dat = Inr (render today st)"
proof -
  from aggregate_well_formed[OF assms(2)] obtain st where s: "aggregate fi init_agg rows = Inr st"
    by blast
  then show ?thesis
    using assms(1,3) by (simp add: generate_report_def)
qed

theorem report_returned_witness:
  "example_rows \<noteq> []
   \<and> list_all (well_formed fromisoformat_seconds) example_rows
   \<and> (\<exists>st. aggregate fromisoformat_seconds init_agg example_rows = Inr st
        \<and> generate_report fromisoformat_seconds ''15/01/2024'' [''rows'' \<mapsto> example_rows]
            = Inr (render ''15/01/2024'' st))"
proof -
  have n: "example_rows \<noteq> []"
    by (simp add: example_rows_def)
  have h: "list_all (well_formed fromisoformat_seconds) example_rows"
    by code_simp
  show ?thesis
    using n h
      report_returned[OF n h, of "[''rows'' \<mapsto> example_rows]" "''15/01/2024''"]
    by simp
qed

text \<open>
  C10: a payload with no "rows" key is treated exactly like one whose "rows" array is
  empty: \<open>generate_report\<close> returns the "no data" sentence and raises nothing.
\<close>

theorem missing_rows_key:
  "dat ''rows'' = None \<Longrightarrow>
     generate_report fi today dat = generate_report fi today (dat(''rows'' \<mapsto> []))
     \<and> generate_report fi today dat = Inr no_data"
  by (simp add: generate_report_def)

theorem missing_rows_key_witness:
  "([''notes'' \<mapsto> []] :: data) ''rows'' = None
   \<and> generate_report fromisoformat_seconds ''15/01/2024'' [''notes'' \<mapsto> []]
       = generate_report fromisoformat_seconds ''15/01/2024''
           ([''notes'' \<mapsto> []](''rows'' \<mapsto> []))
   \<and> generate_report fromisoformat_seconds ''15/01/2024'' [''notes'' \<mapsto> []] = Inr no_data"
proof -
  have n: "([''notes'' \<mapsto> []] :: data) ''rows'' = None"
    by simp
  show ?thesis
    using n missing_rows_key[of "[''notes'' \<mapsto> []]" fromisoformat_seconds "''15/01/2024''"]
    by blast
qed

text \<open>
  C8: when the analytics key or the email key is missing (not set, or empty), \<open>main\<close>
  ends with a \<open>ValueError\<close> and the run has done nothing before it: no HTTP call, neither
  the fetch nor the send.
\<close>

theorem missing_configuration:
  assumes "unset (RESCUETIME_API_KEY environ) \<or> unset (RESEND_API_KEY environ)"
  shows "(\<exists>msg. main environ today_ymd today_dmy fi net = ([], Inl (ValueError msg)))
         \<and> filter is_network (fst (main environ today_ymd today_dmy fi net)) = []"
  using assms by (auto simp: main_def)

theorem missing_configuration_witness:
  "unset (RESEND_API_KEY [''RESCUETIME_API_KEY'' \<mapsto> ''k''])
   \<and> main [''RESCUETIME_API_KEY'' \<mapsto> ''k''] ''2024-01-15'' ''15/01/2024'' fromisoformat_seconds
        \<lparr>http_get = (\<lambda>u p. Inr [''rows'' \<mapsto> example_rows]),
         http_post = (\<lambda>u h e. Inr Map.empty)\<rparr>
       = ([], Inl (ValueError (''RESEND_API_KEY non d'' @ [CHR 0xC3, CHR 0xA9] @ ''finie'')))
   \<and> (\<exists>msg. main [''RESCUETIME_API_KEY'' \<mapsto> ''k''] ''2024-01-15'' ''15/01/2024''
          fromisoformat_seconds
          \<lparr>http_get = (\<lambda>u p. Inr [''rows'' \<mapsto> example_rows]),
           http_post = (\<lambda>u h e. Inr Map.empty)\<rparr>
        = ([], Inl (ValueError msg)))
   \<and> filter is_network
        (fst (main [''RESCUETIME_API_KEY'' \<mapsto> ''k''] ''2024-01-15'' ''15/01/2024''
                fromisoformat_seconds
                \<lparr>http_get = (\<lambda>u p. Inr [''rows'' \<mapsto> example_rows]),
                 http_post = (\<lambda>u h e. Inr Map.empty)\<rparr>)) = []"
proof -
  have u: "unset (RESEND_API_KEY [''RESCUETIME_API_KEY'' \<mapsto> ''k''])"
    by (simp add: unset_def RESEND_API_KEY_def)
  have m: "main [''RESCUETIME_API_KEY'' \<mapsto> ''k''] ''2024-01-15'' ''15/01/2024''
             fromisoformat_seconds
             \<lparr>http_get = (\<lambda>u p. Inr [''rows'' \<mapsto> example_rows]),
              http_post = (\<lambda>u h e. Inr Map.empty)\<rparr>
           = ([], Inl (ValueError (''RESEND_API_KEY non d'' @ [CHR 0xC3, CHR 0xA9] @ ''finie'')))"
    by (simp add: main_def unset_def RESEND_API_KEY_def RESCUETIME_API_KEY_def e_acute_def)
  show ?thesis
    using u m missing_configuration[OF disjI2, OF u, of "''2024-01-15''" "''15/01/2024''"
        fromisoformat_seconds
        "\<lparr>http_get = (\<lambda>u p. Inr [''rows'' \<mapsto> example_rows]),
          http_post = (\<lambda>u h e. Inr Map.empty)\<rparr>"]
    by blast
qed

text \<open>
  C6: in the report of well-formed rows, the category table is the last part of the
  text, one line for each category with the sum of the durations of its rows, and its
  lines come in order of descending total. Nothing is stated about the order of two
  categories with equal totals.
\<close>

theorem category_table_descending:
  assumes "list_all (well_formed fi) rows"
  shows "\<exists>st. aggregate fi init_agg rows = Inr st
     \<and> (\<exists>before. render today st
           = before @ concat (map category_line (sorted_categories (category_totals st))))
     \<and> sorted_wrt (\<lambda>x y. snd x \<ge> snd y) (sorted_categories (category_totals st))
     \<and> mset (sorted_categories (category_totals st)) = mset (category_totals st)
     \<and> distinct (map fst (category_totals st))
     \<and> fst ` set (category_totals st) = (\<lambda>r. r ! 4) ` set rows
     \<and> (\<forall>c. total_of (category_totals st) c
              = sum_list (map row_seconds (filter (\<lambda>r. r ! 4 = c) rows)))"
proof -
  from aggregate_well_formed[OF assms] obtain st where s: "aggregate fi init_agg rows = Inr st"
    by blast
  have o: "sorted_wrt (\<lambda>x y. snd x \<ge> snd y) (sorted_categories (category_totals st))"
    unfolding sorted_categories_def by (rule sort_key_descending)
  have m: "mset (sorted_categories (category_totals st)) = mset (category_totals st)"
    by (simp add: sorted_categories_def)
  have d: "distinct (map fst (category_totals st))"
    using aggregate_sums[OF s] by (simp add: init_agg_def)
  have k: "fst ` set (category_totals st) = (\<lambda>r. r ! 4) ` set rows"
    using aggregate_category[OF s] by (simp add: init_agg_def)
  have c: "total_of (category_totals st) c
              = sum_list (map row_seconds (filter (\<lambda>r. r ! 4 = c) rows))" for c
    using aggregate_category[OF s, of c] by (simp add: init_agg_def total_of_def)
  show ?thesis
    by (rule exI[of _ st]) (simp only: s render_ends_with_table o m d k c simp_thms)
qed

theorem category_table_descending_witness:
  "list_all (well_formed fromisoformat_seconds) example_rows
   \<and> (\<exists>st. aggregate fromisoformat_seconds init_agg example_rows = Inr st
        \<and> sorted_categories (category_totals st)
            = [(CStr ''Work'', 3650), (CStr ''Social'', 2000), (CStr ''Mail'', 1800),
               (CStr ''News'', 1800)]
        \<and> sorted_wrt (\<lambda>x y. snd x \<ge> snd y) (sorted_categories (category_totals st)))"
proof -
  have h: "list_all (well_formed fromisoformat_seconds) example_rows"
    by code_simp
  have c: "case aggregate fromisoformat_seconds init_agg example_rows of
             Inl e \<Rightarrow> False
           | Inr st \<Rightarrow> sorted_categories (category_totals st)
               = [(CStr ''Work'', 3650), (CStr ''Social'', 2000), (CStr ''Mail'', 1800),
                  (CStr ''News'', 1800)]"
    by code_simp
  from category_table_descending[OF h, of "''15/01/2024''"] obtain st where
    s: "aggregate fromisoformat_seconds init_agg example_rows = Inr st"
    and o: "sorted_wrt (\<lambda>x y. snd x \<ge> snd y) (sorted_categories (category_totals st))"
    by blast
  show ?thesis
    using h c s o by auto
qed



end
